theory Spec2Isabelle
  imports Complex_Main
begin

section \<open>The particle simulation of try\_canvas.js\<close>

text \<open>
  The embedding follows \<^verbatim>\<open>src/try_canvas.js\<close>. A JavaScript number is modelled as a
  \<^typ>\<open>real\<close>: the arithmetic of the simulation is taken exactly, without the rounding,
  the infinities and the NaN of IEEE doubles; where a property depends on the rounding,
  \<^verbatim>\<open>drawConnections\<close> is modelled a second time with the rounding of every operation
  made explicit. Counters that only ever hold array indices
  or counts (\<^verbatim>\<open>i\<close>, \<^verbatim>\<open>j\<close>, \<^verbatim>\<open>connections\<close>) are \<^typ>\<open>nat\<close>.
  Objects mutated in place become records that are passed in and returned. The canvas
  context, the gradient and the event wiring are left out; the drawing calls of
  \<^verbatim>\<open>drawConnections\<close> become the list of lines it strokes.
\<close>

subsection \<open>Configuration\<close>

text \<open>
  The \<^verbatim>\<open>config\<close> object. The two fields that the code uses as counts are naturals;
  \<^verbatim>\<open>gradientColors\<close> (styling only) is omitted. Every operation takes the
  configuration as a parameter; \<open>config\<close> below holds the values written in the source.
\<close>

record configuration =
  particleBaseCount :: nat
  particleCountLargeScreenFactor :: real
  smallScreenWidthThreshold :: real
  particleRadiusMin :: real
  particleRadiusMax :: real
  particleVelocityFactor :: real
  mouseInteractionRadius :: real
  particlePushFriction :: real
  connectionMaxDistance :: real
  connectionMaxPeers :: nat
  connectionOpacityFactor :: real

definition config :: configuration where
  "config = \<lparr> particleBaseCount = 100,
               particleCountLargeScreenFactor = 9 / 2,
               smallScreenWidthThreshold = 600,
               particleRadiusMin = 1,
               particleRadiusMax = 11,
               particleVelocityFactor = 1,
               mouseInteractionRadius = 200,
               particlePushFriction = 55 / 100,
               connectionMaxDistance = 100,
               connectionMaxPeers = 4,
               connectionOpacityFactor = 1 / 2 \<rparr>"

subsection \<open>Particles\<close>

record particle =
  x :: real
  y :: real
  vx :: real
  vy :: real
  pushX :: real
  pushY :: real
  radius :: real
  friction :: real

text \<open>
  \<^verbatim>\<open>Particle.applyPhysics(canvasWidth, canvasHeight)\<close> runs four blocks in sequence on
  the same particle object; each block is one function here, named after the comment that
  heads it in the source. Within a block no assignment reads a field that an earlier
  assignment of the same block wrote, so each block is one simultaneous record update.
\<close>

definition applyFriction :: "particle \<Rightarrow> particle" where
  \<comment> \<open>\<^verbatim>\<open>this.pushX *= this.friction; this.pushY *= this.friction;\<close>\<close>
  "applyFriction p = p\<lparr>pushX := pushX p * friction p, pushY := pushY p * friction p\<rparr>"

definition updatePosition :: "particle \<Rightarrow> particle" where
  \<comment> \<open>\<^verbatim>\<open>this.x += this.pushX + this.vx; this.y += this.pushY + this.vy;\<close>\<close>
  "updatePosition p = p\<lparr>x := x p + (pushX p + vx p), y := y p + (pushY p + vy p)\<rparr>"

definition collideX :: "real \<Rightarrow> particle \<Rightarrow> particle" where
  "collideX canvasWidth p =
    (if x p < radius p
     then p\<lparr>x := radius p, vx := vx p * (- 1), pushX := pushX p * (- (1 / 2))\<rparr>
     else if x p > canvasWidth - radius p
     then p\<lparr>x := canvasWidth - radius p, vx := vx p * (- 1), pushX := pushX p * (- (1 / 2))\<rparr>
     else p)"

definition collideY :: "real \<Rightarrow> particle \<Rightarrow> particle" where
  "collideY canvasHeight p =
    (if y p < radius p
     then p\<lparr>y := radius p, vy := vy p * (- 1), pushY := pushY p * (- (1 / 2))\<rparr>
     else if y p > canvasHeight - radius p
     then p\<lparr>y := canvasHeight - radius p, vy := vy p * (- 1), pushY := pushY p * (- (1 / 2))\<rparr>
     else p)"

definition applyPhysics :: "real \<Rightarrow> real \<Rightarrow> particle \<Rightarrow> particle" where
  "applyPhysics canvasWidth canvasHeight p =
     collideY canvasHeight (collideX canvasWidth (updatePosition (applyFriction p)))"

text \<open>
  The helpers \<^verbatim>\<open>random(min, max)\<close> and \<^verbatim>\<open>randomInt(min, max)\<close>. The value that
  \<^verbatim>\<open>Math.random()\<close> returns is the extra first argument \<open>u\<close>.
\<close>

definition random_num :: "real \<Rightarrow> real \<Rightarrow> real \<Rightarrow> real" where
  "random_num u lo hi = u * (hi - lo) + lo"

definition randomInt :: "real \<Rightarrow> real \<Rightarrow> real \<Rightarrow> int" where
  "randomInt u lo hi = \<lfloor>random_num u lo hi\<rfloor>"

text \<open>
  The constructor of \<^verbatim>\<open>Particle\<close>. It calls \<^verbatim>\<open>Math.random()\<close> five times, for the
  radius, \<open>x\<close>, \<open>y\<close>, \<open>vx\<close> and \<open>vy\<close> in this order; \<open>rnd\<close> is the sequence of values that
  \<^verbatim>\<open>Math.random()\<close> returns and \<open>k\<close> the position in it of the first value this
  constructor gets.
\<close>

definition new_Particle :: "configuration \<Rightarrow> real \<Rightarrow> real \<Rightarrow> (nat \<Rightarrow> real) \<Rightarrow> nat \<Rightarrow> particle" where
  "new_Particle cfg canvasWidth canvasHeight rnd k =
    (let r = real_of_int (randomInt (rnd k) (particleRadiusMin cfg) (particleRadiusMax cfg))
     in \<lparr> x = random_num (rnd (k + 1)) r (canvasWidth - r),
          y = random_num (rnd (k + 2)) r (canvasHeight - r),
          vx = random_num (rnd (k + 3)) (- (1 / 2)) (1 / 2) * particleVelocityFactor cfg,
          vy = random_num (rnd (k + 4)) (- (1 / 2)) (1 / 2) * particleVelocityFactor cfg,
          pushX = 0,
          pushY = 0,
          radius = r,
          friction = particlePushFriction cfg \<rparr>)"

text \<open>
  One possible run of \<^verbatim>\<open>Math.random()\<close>, used in examples: it returns 0 at every call.
\<close>

definition always_zero :: "nat \<Rightarrow> real" where
  "always_zero k = 0"

subsection \<open>The particle system\<close>

text \<open>
  \<^verbatim>\<open>this.mouse\<close>: a coordinate is \<open>None\<close> while it is \<^verbatim>\<open>undefined\<close>.
\<close>

record mouse =
  mouse_x :: "real option"
  mouse_y :: "real option"
  mouse_radius :: real

record ParticleSystem =
  particles :: "particle list"
  canvasWidth :: real
  canvasHeight :: real
  mouse :: mouse

text \<open>
  \<^verbatim>\<open>createParticles()\<close>. The loop \<^verbatim>\<open>for (let i = 0; i < count; i++)\<close> compares the integer
  counter with \<open>count\<close>, which is a product of numbers and need not be an integer. The
  particle list starts empty and \<open>rnd\<close> holds the values of \<^verbatim>\<open>Math.random()\<close> from the
  start of the call on, so the constructor call of pass \<open>i\<close> reads them from position
  \<open>5 * i\<close>.
\<close>

function createParticles_loop ::
  "configuration \<Rightarrow> real \<Rightarrow> real \<Rightarrow> (nat \<Rightarrow> real) \<Rightarrow> real \<Rightarrow> nat \<Rightarrow> particle list \<Rightarrow> particle list"
where
  "createParticles_loop cfg w h rnd count i ps =
    (if real i < count
     then createParticles_loop cfg w h rnd count (Suc i) (ps @ [new_Particle cfg w h rnd (5 * i)])
     else ps)"
  by pat_completeness auto
termination
proof (relation "measure (\<lambda>(cfg, w, h, rnd, count, i, ps). nat \<lceil>count\<rceil> - i)")
  show "wf (measure (\<lambda>(cfg, w, h, rnd, count, i, ps). nat \<lceil>count :: real\<rceil> - i))" by simp
next
  fix cfg :: configuration and w h :: real and rnd :: "nat \<Rightarrow> real" and count :: real
    and i :: nat and ps :: "particle list"
  assume "real i < count"
  then have "i < nat \<lceil>count\<rceil>" by linarith
  then show "((cfg, w, h, rnd, count, Suc i, ps @ [new_Particle cfg w h rnd (5 * i)]),
              (cfg, w, h, rnd, count, i, ps))
             \<in> measure (\<lambda>(cfg, w, h, rnd, count, i, ps). nat \<lceil>count\<rceil> - i)"
    by simp
qed

declare createParticles_loop.simps [simp del]

definition createParticles :: "configuration \<Rightarrow> (nat \<Rightarrow> real) \<Rightarrow> ParticleSystem \<Rightarrow> ParticleSystem" where
  "createParticles cfg rnd s =
    (let count = (if canvasWidth s > smallScreenWidthThreshold cfg
                  then real (particleBaseCount cfg) * particleCountLargeScreenFactor cfg
                  else real (particleBaseCount cfg))
     in s\<lparr> particles :=
              createParticles_loop cfg (canvasWidth s) (canvasHeight s) rnd count 0 [],
            mouse := (mouse s)\<lparr> mouse_x := Some (- mouseInteractionRadius cfg * 2),
                                 mouse_y := Some (- mouseInteractionRadius cfg * 2) \<rparr> \<rparr>)"

text \<open>
  \<^verbatim>\<open>applyMouseInteraction()\<close>. \<open>hypot\<close> is \<^verbatim>\<open>Math.hypot\<close> on two arguments;
  \<open>pushParticle\<close> is the body of the loop over \<^verbatim>\<open>this.particles\<close>, for a mouse at
  \<open>(mx, my)\<close> with radius \<open>mr\<close>.
\<close>

definition hypot :: "real \<Rightarrow> real \<Rightarrow> real" where
  "hypot a b = sqrt (a * a + b * b)"

definition pushParticle :: "real \<Rightarrow> real \<Rightarrow> real \<Rightarrow> particle \<Rightarrow> particle" where
  "pushParticle mx my mr p =
    (let dx = x p - mx;
         dy = y p - my;
         distance = hypot dx dy
     in if distance < mr \<and> distance > 1 / 10
        then let forceDirectionX = dx / distance;
                 forceDirectionY = dy / distance;
                 forceMagnitude = 1 - distance / mr
             in p\<lparr> pushX := pushX p + forceDirectionX * forceMagnitude * 5,
                    pushY := pushY p + forceDirectionY * forceMagnitude * 5 \<rparr>
        else p)"

definition applyMouseInteraction :: "ParticleSystem \<Rightarrow> ParticleSystem" where
  "applyMouseInteraction s =
    (case mouse_x (mouse s) of
       None \<Rightarrow> s
     | Some mx \<Rightarrow>
        (case mouse_y (mouse s) of
           None \<Rightarrow> s
         | Some my \<Rightarrow>
            s\<lparr>particles := map (pushParticle mx my (mouse_radius (mouse s))) (particles s)\<rparr>))"

text \<open>
  \<^verbatim>\<open>drawConnections()\<close>. Each pass through the body of \<^verbatim>\<open>if (distSq < maxDistSq)\<close> strokes
  one line; the model returns these lines in the order they are stroked. A line records
  the alpha it is drawn with, the arguments of \<^verbatim>\<open>moveTo\<close> and \<^verbatim>\<open>lineTo\<close>, and the values
  of the loop counters \<^verbatim>\<open>i\<close> and \<^verbatim>\<open>j\<close> at that pass.
\<close>

record line =
  from_index :: nat
  to_index :: nat
  globalAlpha :: real
  moveTo :: "real \<times> real"
  lineTo :: "real \<times> real"

text \<open>
  The inner loop from counter value \<open>j\<close> on, with \<open>connections\<close> lines already drawn
  for \<open>i\<close>. The outer loop only runs it for \<open>i < length ps\<close>, and it reads \<open>ps ! j\<close> only
  for \<open>j < length ps\<close>, so no read is out of range.
\<close>

function connect_from ::
  "configuration \<Rightarrow> particle list \<Rightarrow> nat \<Rightarrow> nat \<Rightarrow> nat \<Rightarrow> line list"
where
  "connect_from cfg ps i j connections =
    (if j < length ps
     then if connections \<ge> connectionMaxPeers cfg
          then []
          else let maxDistSq = connectionMaxDistance cfg * connectionMaxDistance cfg;
                   p1 = ps ! i;
                   p2 = ps ! j;
                   dx = x p1 - x p2;
                   dy = y p1 - y p2;
                   distSq = dx * dx + dy * dy
               in if distSq < maxDistSq
                  then let distance = sqrt distSq;
                           opacity = (1 - distance / connectionMaxDistance cfg)
                                     * connectionOpacityFactor cfg
                       in \<lparr> from_index = i, to_index = j,
                            globalAlpha = max 0 (min opacity 1),
                            moveTo = (x p1, y p1),
                            lineTo = (x p2, y p2) \<rparr>
                          # connect_from cfg ps i (Suc j) (Suc connections)
                  else connect_from cfg ps i (Suc j) connections
     else [])"
  by pat_completeness auto
termination
  by (relation "measure (\<lambda>(cfg, ps, i, j, connections). length ps - j)") auto

declare connect_from.simps [simp del]

text \<open>The outer loop from counter value \<open>i\<close> on.\<close>

function connect_all :: "configuration \<Rightarrow> particle list \<Rightarrow> nat \<Rightarrow> line list" where
  "connect_all cfg ps i =
    (if i < length ps
     then connect_from cfg ps i (i + 1) 0 @ connect_all cfg ps (Suc i)
     else [])"
  by pat_completeness auto
termination
  by (relation "measure (\<lambda>(cfg, ps, i). length ps - i)") auto

declare connect_all.simps [simp del]

definition drawConnections :: "configuration \<Rightarrow> ParticleSystem \<Rightarrow> line list" where
  "drawConnections cfg s = connect_all cfg (particles s) 0"

subsection \<open>The force field as the specification words it\<close>

text \<open>
  The reference definition of the pointer force field, written from the specification
  (section 4.2) and not from the code: the pointer state is an optional position \<open>P\<close>
  with an influence radius, \<open>d\<close> is the Euclidean distance from \<open>P\<close> to the particle
  position, there is no effect when \<open>P\<close> is absent, when \<open>d \<ge> influenceRadius\<close> or when
  \<open>d \<le> 0.1\<close>, and otherwise the unit vector away from the pointer, scaled by the linear
  falloff \<open>1 - d / influenceRadius\<close> and by the strength \<open>K = 5\<close>, is added to the push
  accumulator. \<open>pointer\<close> reads the optional position off the \<^verbatim>\<open>mouse\<close> object.
\<close>

definition pointer :: "mouse \<Rightarrow> (real \<times> real) option" where
  "pointer m =
    (case mouse_x m of
       None \<Rightarrow> None
     | Some px \<Rightarrow> (case mouse_y m of None \<Rightarrow> None | Some py \<Rightarrow> Some (px, py)))"


subsection \<open>Abbreviations used in the proofs about \<^verbatim>\<open>drawConnections\<close>\<close>

text \<open>
  \<open>near\<close> is the test \<^verbatim>\<open>distSq < maxDistSq\<close> of the inner loop on two particles, and
  \<open>line_between\<close> the line stroked when the test succeeds at counters \<open>i\<close> and \<open>j\<close>.
\<close>

definition near :: "configuration \<Rightarrow> particle \<Rightarrow> particle \<Rightarrow> bool" where
  "near cfg p1 p2 \<longleftrightarrow>
     (x p1 - x p2) * (x p1 - x p2) + (y p1 - y p2) * (y p1 - y p2)
       < connectionMaxDistance cfg * connectionMaxDistance cfg"

definition line_between :: "configuration \<Rightarrow> particle list \<Rightarrow> nat \<Rightarrow> nat \<Rightarrow> line" where
  "line_between cfg ps i j =
    \<lparr> from_index = i, to_index = j,
      globalAlpha =
        max 0 (min ((1 - sqrt ((x (ps ! i) - x (ps ! j)) * (x (ps ! i) - x (ps ! j))
                               + (y (ps ! i) - y (ps ! j)) * (y (ps ! i) - y (ps ! j)))
                         / connectionMaxDistance cfg) * connectionOpacityFactor cfg) 1),
      moveTo = (x (ps ! i), y (ps ! i)),
      lineTo = (x (ps ! j), y (ps ! j)) \<rparr>"

subsection \<open>Rounding to a double\<close>




subsection \<open>\<^verbatim>\<open>drawConnections\<close> with rounded arithmetic\<close>

text \<open>
  The two loops of \<^verbatim>\<open>drawConnections()\<close> once more, with the rounding the code applies made
  explicit: \<open>fl\<close> is applied to the result of every subtraction, multiplication, addition,
  division and square root, in the order the source evaluates them. With
  \<open>fl = round_double\<close> this is the arithmetic of the code; with the identity for \<open>fl\<close> it is
  \<open>drawConnections\<close> above. Which pairs pass the test \<^verbatim>\<open>distSq < maxDistSq\<close> depends on
  the rounding.
\<close>

function connect_from_rounded ::
  "(real \<Rightarrow> real) \<Rightarrow> configuration \<Rightarrow> particle list \<Rightarrow> nat \<Rightarrow> nat \<Rightarrow> nat \<Rightarrow> line list"
where
  "connect_from_rounded fl cfg ps i j connections =
    (if j < length ps
     then if connections \<ge> connectionMaxPeers cfg
          then []
          else let maxDistSq = fl (connectionMaxDistance cfg * connectionMaxDistance cfg);
                   p1 = ps ! i;
                   p2 = ps ! j;
                   dx = fl (x p1 - x p2);
                   dy = fl (y p1 - y p2);
                   distSq = fl (fl (dx * dx) + fl (dy * dy))
               in if distSq < maxDistSq
                  then let distance = fl (sqrt distSq);
                           opacity = fl (fl (1 - fl (distance / connectionMaxDistance cfg))
                                         * connectionOpacityFactor cfg)
                       in \<lparr> from_index = i, to_index = j,
                            globalAlpha = max 0 (min opacity 1),
                            moveTo = (x p1, y p1),
                            lineTo = (x p2, y p2) \<rparr>
                          # connect_from_rounded fl cfg ps i (Suc j) (Suc connections)
                  else connect_from_rounded fl cfg ps i (Suc j) connections
     else [])"
  by pat_completeness auto
termination
  by (relation "measure (\<lambda>(fl, cfg, ps, i, j, connections). length ps - j)") auto

declare connect_from_rounded.simps [simp del]

function connect_all_rounded ::
  "(real \<Rightarrow> real) \<Rightarrow> configuration \<Rightarrow> particle list \<Rightarrow> nat \<Rightarrow> line list"
where
  "connect_all_rounded fl cfg ps i =
    (if i < length ps
     then connect_from_rounded fl cfg ps i (i + 1) 0 @ connect_all_rounded fl cfg ps (Suc i)
     else [])"
  by pat_completeness auto
termination
  by (relation "measure (\<lambda>(fl, cfg, ps, i). length ps - i)") auto

declare connect_all_rounded.simps [simp del]

definition drawConnections_rounded ::
  "(real \<Rightarrow> real) \<Rightarrow> configuration \<Rightarrow> ParticleSystem \<Rightarrow> line list" where
  "drawConnections_rounded fl cfg s = connect_all_rounded fl cfg (particles s) 0"

text \<open>
  \<open>distSq_rounded\<close> is the value of \<^verbatim>\<open>distSq\<close> that the inner loop computes for two
  particles, and \<open>line_rounded\<close> the line it strokes when the test succeeds at counters
  \<open>i\<close> and \<open>j\<close>.
\<close>

definition distSq_rounded :: "(real \<Rightarrow> real) \<Rightarrow> particle \<Rightarrow> particle \<Rightarrow> real" where
  "distSq_rounded fl p1 p2 =
     fl (fl (fl (x p1 - x p2) * fl (x p1 - x p2)) + fl (fl (y p1 - y p2) * fl (y p1 - y p2)))"

definition line_rounded ::
  "(real \<Rightarrow> real) \<Rightarrow> configuration \<Rightarrow> particle list \<Rightarrow> nat \<Rightarrow> nat \<Rightarrow> line" where
  "line_rounded fl cfg ps i j =
    \<lparr> from_index = i, to_index = j,
      globalAlpha =
        max 0 (min (fl (fl (1 - fl (fl (sqrt (distSq_rounded fl (ps ! i) (ps ! j)))
                                     / connectionMaxDistance cfg))
                        * connectionOpacityFactor cfg)) 1),
      moveTo = (x (ps ! i), y (ps ! i)),
      lineTo = (x (ps ! j), y (ps ! j)) \<rparr>"

subsection \<open>Example states\<close>

text \<open>
  Three particles in a row on the line \<open>y = 0\<close>, three units apart, and a configuration
  that differs from the one of the source only in allowing one line per particle.
\<close>

definition row_of_three :: ParticleSystem where
  "row_of_three =
    \<lparr> particles =
        [\<lparr>x = 0, y = 0, vx = 1 / 4, vy = 0, pushX = 0, pushY = 0, radius = 1, friction = 55 / 100\<rparr>,
         \<lparr>x = 3, y = 0, vx = 0, vy = 1 / 4, pushX = 0, pushY = 0, radius = 2, friction = 55 / 100\<rparr>,
         \<lparr>x = 6, y = 0, vx = 0, vy = 0, pushX = 1, pushY = 1, radius = 3, friction = 55 / 100\<rparr>],
      canvasWidth = 800,
      canvasHeight = 600,
      mouse = \<lparr>mouse_x = Some 60, mouse_y = Some 80, mouse_radius = 200\<rparr> \<rparr>"

definition one_peer :: configuration where
  "one_peer = config\<lparr>connectionMaxPeers := 1\<rparr>"



section \<open>Properties of the integrator\<close>

lemmas physics_defs =
  applyPhysics_def collideY_def collideX_def updatePosition_def applyFriction_def

lemma abs_decay: "0 < f \<Longrightarrow> f < 1 \<Longrightarrow> \<bar>a * f\<bar> \<le> \<bar>a\<bar>"
  for a f :: real
proof -
  assume "0 < f" "f < 1"
  then have "\<bar>a * f\<bar> = \<bar>a\<bar> * f" by (simp add: abs_mult)
  also have "\<dots> \<le> \<bar>a\<bar> * 1" using \<open>f < 1\<close> by (intro mult_left_mono) simp_all
  finally show ?thesis by simp
qed

lemma abs_decay_bounce: "0 < f \<Longrightarrow> f < 1 \<Longrightarrow> \<bar>a * f * (- (1 / 2))\<bar> \<le> \<bar>a\<bar>"
  for a f :: real
proof -
  assume f: "0 < f" "f < 1"
  have "\<bar>a * f * (- (1 / 2))\<bar> = \<bar>a * f\<bar> * (1 / 2)" by (simp add: abs_mult)
  also have "\<dots> \<le> \<bar>a * f\<bar>" by simp
  also have "\<dots> \<le> \<bar>a\<bar>" using f by (rule abs_decay)
  finally show ?thesis .
qed

text \<open>
  C1. When the radius is strictly less than half of each canvas extent, the particle
  returned by one \<open>applyPhysics\<close> step lies inside the canvas by its radius on both axes:
  \<open>radius \<le> x \<le> W - radius\<close> and \<open>radius \<le> y \<le> H - radius\<close>, whatever the position,
  velocity and push accumulator were before the step.
\<close>

theorem applyPhysics_in_bounds:
  assumes "radius p < W / 2" and "radius p < H / 2"
  shows "radius p \<le> x (applyPhysics W H p) \<and> x (applyPhysics W H p) \<le> W - radius p \<and>
         radius p \<le> y (applyPhysics W H p) \<and> y (applyPhysics W H p) \<le> H - radius p"
  using assms by (simp add: physics_defs)

theorem applyPhysics_in_bounds_witness:
  "(let p = \<lparr>x = - 50, y = 1000, vx = - 3, vy = 7, pushX = - 20, pushY = 40, radius = 10,
             friction = 55 / 100\<rparr>;
        q = applyPhysics 800 600 p
    in radius p < 800 / 2 \<and> radius p < 600 / 2 \<and> x q = 10 \<and> y q = 590 \<and>
       radius p \<le> x q \<and> x q \<le> 800 - radius p \<and> radius p \<le> y q \<and> y q \<le> 600 - radius p)"
  using applyPhysics_in_bounds [of "\<lparr>x = - 50, y = 1000, vx = - 3, vy = 7, pushX = - 20,
          pushY = 40, radius = 10, friction = 55 / 100\<rparr>" 800 600]
  by (simp add: physics_defs)

text \<open>
  C2. For a friction coefficient strictly between 0 and 1, one \<open>applyPhysics\<close> step never
  increases the magnitude of either component of the push accumulator, with or without a
  boundary collision in that step.
\<close>

theorem applyPhysics_push_nonincreasing:
  assumes "0 < friction p" and "friction p < 1"
  shows "\<bar>pushX (applyPhysics W H p)\<bar> \<le> \<bar>pushX p\<bar> \<and> \<bar>pushY (applyPhysics W H p)\<bar> \<le> \<bar>pushY p\<bar>"
  using abs_decay [OF assms] abs_decay_bounce [OF assms]
  by (simp add: physics_defs)

theorem applyPhysics_push_nonincreasing_witness:
  "(let p = \<lparr>x = 12, y = 300, vx = -1, vy = 0, pushX = -8, pushY = 4, radius = 10,
             friction = 1 / 2\<rparr>;
        q = applyPhysics 800 600 p
    in 0 < friction p \<and> friction p < 1 \<and> x q = 10 \<and> pushX q = 2 \<and> pushY q = 2 \<and>
       \<bar>pushX q\<bar> \<le> \<bar>pushX p\<bar> \<and> \<bar>pushY q\<bar> \<le> \<bar>pushY p\<bar>)"
  using applyPhysics_push_nonincreasing [of "\<lparr>x = 12, y = 300, vx = -1, vy = 0, pushX = -8,
          pushY = 4, radius = 10, friction = 1 / 2\<rparr>" 800 600]
  by (simp add: physics_defs)

text \<open>
  C7. A particle one unit left of the left wall position (\<open>x = radius - 1\<close>) that moves
  left with \<open>vx = -2\<close> and has no horizontal push is put back on the wall by one step,
  \<open>x = radius\<close>, with its velocity reversed, \<open>vx = 2\<close>. The two axes are handled
  independently, so this holds for every \<open>y\<close>, vertical velocity and canvas extent.
\<close>

theorem applyPhysics_left_bounce:
  assumes "x p = radius p - 1" and "vx p = - 2" and "pushX p = 0"
  shows "x (applyPhysics W H p) = radius p \<and> vx (applyPhysics W H p) = 2"
  using assms by (simp add: physics_defs)

theorem applyPhysics_left_bounce_witness:
  "(let p = \<lparr>x = 4, y = 300, vx = - 2, vy = 0, pushX = 0, pushY = 0, radius = 5,
             friction = 55 / 100\<rparr>;
        q = applyPhysics 800 600 p
    in x p = radius p - 1 \<and> vx p = - 2 \<and> pushX p = 0 \<and> x q = radius p \<and> vx q = 2 \<and>
       y q = 300 \<and> vy q = 0)"
  using applyPhysics_left_bounce [of "\<lparr>x = 4, y = 300, vx = - 2, vy = 0, pushX = 0,
          pushY = 0, radius = 5, friction = 55 / 100\<rparr>" 800 600]
  by (simp add: physics_defs)

section \<open>Properties of the pointer force field\<close>






lemma pushParticle_frame:
  "x (pushParticle mx my mr p) = x p"
  "y (pushParticle mx my mr p) = y p"
  "vx (pushParticle mx my mr p) = vx p"
  "vy (pushParticle mx my mr p) = vy p"
  "radius (pushParticle mx my mr p) = radius p"
  "friction (pushParticle mx my mr p) = friction p"
  by (simp_all add: pushParticle_def Let_def)

lemma applyMouseInteraction_cases:
  obtains (absent) "pointer (mouse s) = None" and "applyMouseInteraction s = s"
  | (present) mx my where "pointer (mouse s) = Some (mx, my)"
      and "applyMouseInteraction s =
             s\<lparr>particles := map (pushParticle mx my (mouse_radius (mouse s))) (particles s)\<rparr>"
  by (cases "mouse_x (mouse s)"; cases "mouse_y (mouse s)")
     (simp_all add: applyMouseInteraction_def pointer_def)



text \<open>
  C10. One run of \<open>applyMouseInteraction\<close> changes nothing but the push accumulators: the
  sequences of the particles' \<open>x\<close>, \<open>y\<close>, \<open>vx\<close>, \<open>vy\<close>, \<open>radius\<close> and \<open>friction\<close> values
  are the same before and after (so the particles keep their number and their order), and
  the mouse and the canvas extent are unchanged, for every pointer state.
\<close>

theorem applyMouseInteraction_frame:
  "map x (particles (applyMouseInteraction s)) = map x (particles s) \<and>
   map y (particles (applyMouseInteraction s)) = map y (particles s) \<and>
   map vx (particles (applyMouseInteraction s)) = map vx (particles s) \<and>
   map vy (particles (applyMouseInteraction s)) = map vy (particles s) \<and>
   map radius (particles (applyMouseInteraction s)) = map radius (particles s) \<and>
   map friction (particles (applyMouseInteraction s)) = map friction (particles s) \<and>
   length (particles (applyMouseInteraction s)) = length (particles s) \<and>
   mouse (applyMouseInteraction s) = mouse s \<and>
   canvasWidth (applyMouseInteraction s) = canvasWidth s \<and>
   canvasHeight (applyMouseInteraction s) = canvasHeight s"
proof (cases s rule: applyMouseInteraction_cases)
  case absent
  then show ?thesis by simp
next
  case (present mx my)
  then show ?thesis by (simp add: comp_def pushParticle_frame)
qed

theorem applyMouseInteraction_frame_witness:
  "map x (particles (applyMouseInteraction row_of_three)) = [0, 3, 6] \<and>
   map y (particles (applyMouseInteraction row_of_three)) = [0, 0, 0] \<and>
   map vx (particles (applyMouseInteraction row_of_three)) = [1 / 4, 0, 0] \<and>
   map vy (particles (applyMouseInteraction row_of_three)) = [0, 1 / 4, 0] \<and>
   map radius (particles (applyMouseInteraction row_of_three)) = [1, 2, 3] \<and>
   map friction (particles (applyMouseInteraction row_of_three)) = [55 / 100, 55 / 100, 55 / 100] \<and>
   length (particles (applyMouseInteraction row_of_three)) = 3 \<and>
   mouse (applyMouseInteraction row_of_three)
     = \<lparr>mouse_x = Some 60, mouse_y = Some 80, mouse_radius = 200\<rparr>"
  using applyMouseInteraction_frame [of row_of_three]
  by (simp add: row_of_three_def)

section \<open>Properties of the connection lines\<close>

lemma connect_from_step:
  "connect_from cfg ps i j c =
    (if j < length ps \<and> c < connectionMaxPeers cfg
     then if near cfg (ps ! i) (ps ! j)
          then line_between cfg ps i j # connect_from cfg ps i (Suc j) (Suc c)
          else connect_from cfg ps i (Suc j) c
     else [])"
  by (subst connect_from.simps) (simp add: Let_def near_def line_between_def)

text \<open>The induction rule of the inner loop, with the test named.\<close>

lemma connect_from_induct [case_names stop near far]:
  assumes stop: "\<And>j c. \<not> (j < length ps \<and> c < connectionMaxPeers cfg) \<Longrightarrow> P j c"
    and near: "\<And>j c. j < length ps \<Longrightarrow> c < connectionMaxPeers cfg \<Longrightarrow>
                near cfg (ps ! i) (ps ! j) \<Longrightarrow> P (Suc j) (Suc c) \<Longrightarrow> P j c"
    and far: "\<And>j c. j < length ps \<Longrightarrow> c < connectionMaxPeers cfg \<Longrightarrow>
                \<not> near cfg (ps ! i) (ps ! j) \<Longrightarrow> P (Suc j) c \<Longrightarrow> P j c"
  shows "P j c"
proof (induction "length ps - j" arbitrary: j c)
  case (0 j c)
  then show ?case by (intro stop) simp
next
  case (Suc n j c)
  show ?case
  proof (cases "j < length ps \<and> c < connectionMaxPeers cfg")
    case False
    then show ?thesis by (rule stop)
  next
    case True
    from Suc.hyps(2) have n: "n = length ps - Suc j" by simp
    show ?thesis
    proof (cases "near cfg (ps ! i) (ps ! j)")
      case True
      with \<open>j < length ps \<and> c < connectionMaxPeers cfg\<close> show ?thesis
        by (intro near [OF _ _ _ Suc.hyps(1) [OF n]]) simp_all
    next
      case False
      with \<open>j < length ps \<and> c < connectionMaxPeers cfg\<close> show ?thesis
        by (intro far [OF _ _ _ Suc.hyps(1) [OF n]]) simp_all
    qed
  qed
qed

lemma connect_from_stop:
  "\<not> (j < length ps \<and> c < connectionMaxPeers cfg) \<Longrightarrow> connect_from cfg ps i j c = []"
  by (subst connect_from_step) auto

lemma connect_from_near:
  "j < length ps \<Longrightarrow> c < connectionMaxPeers cfg \<Longrightarrow> near cfg (ps ! i) (ps ! j) \<Longrightarrow>
   connect_from cfg ps i j c = line_between cfg ps i j # connect_from cfg ps i (Suc j) (Suc c)"
  by (subst connect_from_step) simp

lemma connect_from_far:
  "j < length ps \<Longrightarrow> c < connectionMaxPeers cfg \<Longrightarrow> \<not> near cfg (ps ! i) (ps ! j) \<Longrightarrow>
   connect_from cfg ps i j c = connect_from cfg ps i (Suc j) c"
  by (subst connect_from_step) simp

lemma connect_from_length: "length (connect_from cfg ps i j c) \<le> connectionMaxPeers cfg - c"
proof (induction j c rule: connect_from_induct [where ps = ps and cfg = cfg and i = i])
  case (stop j c)
  then show ?case by (simp add: connect_from_stop)
next
  case (near j c)
  then show ?case by (simp add: connect_from_near)
next
  case (far j c)
  then show ?case by (simp add: connect_from_far)
qed

lemma connect_from_members:
  "e \<in> set (connect_from cfg ps i j c) \<Longrightarrow>
     from_index e = i \<and> j \<le> to_index e \<and> to_index e < length ps \<and>
     moveTo e = (x (ps ! i), y (ps ! i)) \<and>
     lineTo e = (x (ps ! to_index e), y (ps ! to_index e))"
proof (induction j c rule: connect_from_induct [where ps = ps and cfg = cfg and i = i])
  case (stop j c)
  then show ?case by (simp add: connect_from_stop)
next
  case (near j c)
  then show ?case by (auto simp: connect_from_near line_between_def)
next
  case (far j c)
  then show ?case by (auto simp: connect_from_far)
qed

lemma connect_from_sorted:
  "sorted_wrt (\<lambda>a b. to_index a < to_index b) (connect_from cfg ps i j c)"
proof (induction j c rule: connect_from_induct [where ps = ps and cfg = cfg and i = i])
  case (stop j c)
  then show ?case by (simp add: connect_from_stop)
next
  case (near j c)
  have "to_index (line_between cfg ps i j) < to_index e"
    if "e \<in> set (connect_from cfg ps i (Suc j) (Suc c))" for e
    using connect_from_members [OF that] by (simp add: line_between_def)
  with near show ?case by (simp add: connect_from_near)
next
  case (far j c)
  then show ?case by (simp add: connect_from_far)
qed

lemma connect_from_positions:
  assumes "map (\<lambda>p. (x p, y p)) ps = map (\<lambda>p. (x p, y p)) qs" and "i < length ps"
  shows "connect_from cfg ps i j c = connect_from cfg qs i j c"
proof -
  from assms(1) have len: "length ps = length qs"
    by (rule map_eq_imp_length_eq)
  have pos: "x (ps ! k) = x (qs ! k) \<and> y (ps ! k) = y (qs ! k)" if "k < length ps" for k
  proof -
    from that len have "map (\<lambda>p. (x p, y p)) ps ! k = (x (ps ! k), y (ps ! k))"
      and "map (\<lambda>p. (x p, y p)) qs ! k = (x (qs ! k), y (qs ! k))" by simp_all
    with assms(1) show ?thesis by simp
  qed
  have nr: "near cfg (ps ! i) (ps ! k) = near cfg (qs ! i) (qs ! k)" if "k < length ps" for k
    using pos [OF that] pos [OF assms(2)] by (simp add: near_def)
  have ln: "line_between cfg ps i k = line_between cfg qs i k" if "k < length ps" for k
    using pos [OF that] pos [OF assms(2)] by (simp add: line_between_def)
  show ?thesis
  proof (induction j c rule: connect_from_induct [where ps = ps and cfg = cfg and i = i])
    case (stop j c)
    then show ?case using len by (simp add: connect_from_stop)
  next
    case (near j c)
    then show ?case using len nr [of j] ln [of j]
      by (simp add: connect_from_near [of j _ _ cfg])
  next
    case (far j c)
    then show ?case using len nr [of j]
      by (simp add: connect_from_far [of j _ _ cfg])
  qed
qed

lemma connect_all_step:
  "connect_all cfg ps i =
     (if i < length ps then connect_from cfg ps i (i + 1) 0 @ connect_all cfg ps (Suc i) else [])"
  by (rule connect_all.simps)

lemma connect_all_members:
  "e \<in> set (connect_all cfg ps i) \<Longrightarrow>
     i \<le> from_index e \<and> from_index e < to_index e \<and> to_index e < length ps \<and>
     moveTo e = (x (ps ! from_index e), y (ps ! from_index e)) \<and>
     lineTo e = (x (ps ! to_index e), y (ps ! to_index e))"
proof (induction cfg ps i rule: connect_all.induct)
  case (1 cfg ps i)
  show ?case
  proof (cases "i < length ps")
    case False
    with "1.prems" show ?thesis by (simp add: connect_all_step [of cfg ps i])
  next
    case True
    with "1.prems" consider
      (here) "e \<in> set (connect_from cfg ps i (i + 1) 0)" |
      (later) "e \<in> set (connect_all cfg ps (Suc i))"
      by (auto simp: connect_all_step [of cfg ps i])
    then show ?thesis
    proof cases
      case here
      from connect_from_members [OF here] show ?thesis by simp
    next
      case later
      from "1.IH" [OF True later] show ?thesis by simp
    qed
  qed
qed

lemma connect_all_length:
  "length (connect_all cfg ps i) \<le> (length ps - i) * connectionMaxPeers cfg"
proof (induction cfg ps i rule: connect_all.induct)
  case (1 cfg ps i)
  show ?case
  proof (cases "i < length ps")
    case False
    then show ?thesis by (simp add: connect_all_step [of cfg ps i])
  next
    case True
    then have split: "length ps - i = Suc (length ps - Suc i)" by simp
    have "length (connect_all cfg ps i)
            = length (connect_from cfg ps i (i + 1) 0) + length (connect_all cfg ps (Suc i))"
      using True by (simp add: connect_all_step [of cfg ps i])
    also have "\<dots> \<le> connectionMaxPeers cfg + (length ps - Suc i) * connectionMaxPeers cfg"
      using connect_from_length [of cfg ps i "i + 1" 0] "1.IH" [OF True]
      by (intro add_mono) simp_all
    finally show ?thesis by (simp add: split)
  qed
qed

lemma connect_all_sorted:
  "sorted_wrt (\<lambda>a b. from_index a < from_index b \<or>
                      (from_index a = from_index b \<and> to_index a < to_index b))
     (connect_all cfg ps i)"
proof (induction cfg ps i rule: connect_all.induct)
  case (1 cfg ps i)
  show ?case
  proof (cases "i < length ps")
    case False
    then show ?thesis by (simp add: connect_all_step [of cfg ps i])
  next
    case True
    have inner: "sorted_wrt (\<lambda>a b. from_index a < from_index b \<or>
                      (from_index a = from_index b \<and> to_index a < to_index b))
                   (connect_from cfg ps i (i + 1) 0)"
    proof (rule sorted_wrt_mono_rel [OF _ connect_from_sorted])
      fix a b
      assume "a \<in> set (connect_from cfg ps i (i + 1) 0)"
        and "b \<in> set (connect_from cfg ps i (i + 1) 0)" and "to_index a < to_index b"
      then show "from_index a < from_index b \<or>
                 (from_index a = from_index b \<and> to_index a < to_index b)"
        using connect_from_members [of a cfg ps i "i + 1" 0]
          connect_from_members [of b cfg ps i "i + 1" 0] by simp
    qed
    have cross: "from_index a < from_index b"
      if "a \<in> set (connect_from cfg ps i (i + 1) 0)" and "b \<in> set (connect_all cfg ps (Suc i))"
      for a b
      using connect_from_members [OF that(1)] connect_all_members [OF that(2)] by simp
    from True inner cross "1.IH" [OF True] show ?thesis
      by (simp add: connect_all_step [of cfg ps i] sorted_wrt_append)
  qed
qed

lemma connect_all_positions:
  assumes "map (\<lambda>p. (x p, y p)) ps = map (\<lambda>p. (x p, y p)) qs"
  shows "connect_all cfg ps i = connect_all cfg qs i"
proof -
  from assms have len: "length ps = length qs"
    by (rule map_eq_imp_length_eq)
  have "length ps = length qs \<Longrightarrow> map (\<lambda>p. (x p, y p)) ps = map (\<lambda>p. (x p, y p)) qs \<Longrightarrow>
        connect_all cfg ps i = connect_all cfg qs i"
  proof (induction cfg ps i rule: connect_all.induct)
    case (1 cfg ps i)
    show ?case
    proof (cases "i < length ps")
      case False
      with "1.prems"(1) show ?thesis
        by (simp add: connect_all_step [of cfg ps i] connect_all_step [of cfg qs i])
    next
      case True
      from connect_from_positions [OF "1.prems"(2) True]
      have "connect_from cfg ps i (i + 1) 0 = connect_from cfg qs i (i + 1) 0" .
      moreover from "1.IH" [OF True "1.prems"]
      have "connect_all cfg ps (Suc i) = connect_all cfg qs (Suc i)" .
      ultimately show ?thesis using True "1.prems"(1)
        by (simp add: connect_all_step [of cfg ps i] connect_all_step [of cfg qs i])
    qed
  qed
  with len assms show ?thesis by simp
qed

lemma sorted_wrt_distinct_map:
  "sorted_wrt R xs \<Longrightarrow> (\<And>a b. a \<in> set xs \<Longrightarrow> b \<in> set xs \<Longrightarrow> R a b \<Longrightarrow> f a \<noteq> f b) \<Longrightarrow>
   distinct (map f xs)"
  by (induction xs) auto


lemma doubleton_ordered:
  "a < a' \<Longrightarrow> b < b' \<Longrightarrow> {a, a'} = {b, b'} \<Longrightarrow> a = b \<and> a' = b'" for a a' b b' :: nat
  by (auto simp: doubleton_eq_iff)

lemma drawConnections_members:
  assumes "e \<in> set (drawConnections cfg s)"
  shows "from_index e < to_index e" and "to_index e < length (particles s)"
    and "moveTo e = (x (particles s ! from_index e), y (particles s ! from_index e))"
    and "lineTo e = (x (particles s ! to_index e), y (particles s ! to_index e))"
proof -
  from assms have "e \<in> set (connect_all cfg (particles s) 0)"
    by (simp add: drawConnections_def)
  from connect_all_members [OF this]
  show "from_index e < to_index e" and "to_index e < length (particles s)"
    and "moveTo e = (x (particles s ! from_index e), y (particles s ! from_index e))"
    and "lineTo e = (x (particles s ! to_index e), y (particles s ! to_index e))"
    by simp_all
qed

lemma drawConnections_sorted:
  "sorted_wrt (\<lambda>a b. from_index a < from_index b \<or>
                      (from_index a = from_index b \<and> to_index a < to_index b))
     (drawConnections cfg s)"
  unfolding drawConnections_def by (rule connect_all_sorted)

lemma drawConnections_distinct:
  "distinct (map (\<lambda>e. {from_index e, to_index e}) (drawConnections cfg s))"
proof (rule sorted_wrt_distinct_map [OF drawConnections_sorted])
  fix a b
  assume a: "a \<in> set (drawConnections cfg s)" and b: "b \<in> set (drawConnections cfg s)"
    and lt: "from_index a < from_index b \<or>
             (from_index a = from_index b \<and> to_index a < to_index b)"
  show "{from_index a, to_index a} \<noteq> {from_index b, to_index b}"
  proof
    assume "{from_index a, to_index a} = {from_index b, to_index b}"
    with drawConnections_members(1) [OF a] drawConnections_members(1) [OF b]
    have "from_index a = from_index b \<and> to_index a = to_index b"
      by (rule doubleton_ordered)
    with lt show False by simp
  qed
qed

lemma drawConnections_positions:
  "map (\<lambda>p. (x p, y p)) (particles s) = map (\<lambda>p. (x p, y p)) (particles t) \<Longrightarrow>
   drawConnections cfg s = drawConnections cfg t"
  unfolding drawConnections_def by (rule connect_all_positions)

lemma drawConnections_empty: "particles s = [] \<Longrightarrow> drawConnections cfg s = []"
  by (simp add: drawConnections_def connect_all_step [of cfg "[]" 0])

lemma sqrt_100: "sqrt 100 = 10"
  by (rule real_sqrt_unique) simp_all

lemma connect_all_three:
  "connect_all config
     [\<lparr>x = 0, y = 0, vx = 0, vy = 0, pushX = 0, pushY = 0, radius = 1, friction = 0\<rparr>,
      \<lparr>x = 10, y = 0, vx = 0, vy = 0, pushX = 0, pushY = 0, radius = 1, friction = 0\<rparr>,
      \<lparr>x = 200, y = 0, vx = 0, vy = 0, pushX = 0, pushY = 0, radius = 1, friction = 0\<rparr>] 0
   = [\<lparr>from_index = 0, to_index = 1, globalAlpha = 9 / 20, moveTo = (0, 0), lineTo = (10, 0)\<rparr>]"
  by (simp add: connect_all_step connect_from_step near_def line_between_def config_def sqrt_100)

lemma sqrt_9: "sqrt 9 = 3"
  by (rule real_sqrt_unique) simp_all

lemma row_of_three_lines:
  "drawConnections one_peer row_of_three =
     [\<lparr>from_index = 0, to_index = 1, globalAlpha = 97 / 200, moveTo = (0, 0), lineTo = (3, 0)\<rparr>,
      \<lparr>from_index = 1, to_index = 2, globalAlpha = 97 / 200, moveTo = (3, 0), lineTo = (6, 0)\<rparr>]"
  by (simp add: drawConnections_def row_of_three_def one_peer_def connect_all_step
      connect_from_step near_def line_between_def config_def sqrt_9)










lemma connect_from_rounded_step:
  "connect_from_rounded fl cfg ps i j c =
    (if j < length ps \<and> c < connectionMaxPeers cfg
     then if distSq_rounded fl (ps ! i) (ps ! j)
               < fl (connectionMaxDistance cfg * connectionMaxDistance cfg)
          then line_rounded fl cfg ps i j # connect_from_rounded fl cfg ps i (Suc j) (Suc c)
          else connect_from_rounded fl cfg ps i (Suc j) c
     else [])"
  by (subst connect_from_rounded.simps) (simp add: Let_def distSq_rounded_def line_rounded_def)


lemma connect_from_rounded_stop:
  "\<not> (j < length ps \<and> c < connectionMaxPeers cfg) \<Longrightarrow> connect_from_rounded fl cfg ps i j c = []"
  by (subst connect_from_rounded_step) auto









text \<open>Without rounding, the rounded loops are the loops of \<open>drawConnections\<close>.\<close>

lemma connect_from_rounded_exact:
  "connect_from_rounded (\<lambda>v. v) cfg ps i j c = connect_from cfg ps i j c"
proof (induction j c rule: connect_from_induct [where ps = ps and cfg = cfg and i = i])
  case (stop j c)
  then show ?case by (simp add: connect_from_stop connect_from_rounded_stop)
next
  case (near j c)
  then show ?case
    by (simp add: connect_from_near connect_from_rounded_step [of _ cfg ps i j c]
        near_def distSq_rounded_def line_rounded_def line_between_def)
next
  case (far j c)
  then show ?case
    by (simp add: connect_from_far connect_from_rounded_step [of _ cfg ps i j c]
        near_def distSq_rounded_def)
qed

lemma drawConnections_rounded_exact:
  "drawConnections_rounded (\<lambda>v. v) cfg s = drawConnections cfg s"
proof -
  have "connect_all_rounded (\<lambda>v. v) cfg ps i = connect_all cfg ps i" for ps i
  proof (induction cfg ps i rule: connect_all.induct)
    case (1 cfg ps i)
    then show ?case
      by (simp add: connect_all_step [of cfg ps i] connect_all_rounded.simps [of _ cfg ps i]
          connect_from_rounded_exact)
  qed
  then show ?thesis by (simp add: drawConnections_rounded_def drawConnections_def)
qed














text \<open>
  C5. One \<open>drawConnections\<close> run over \<open>N\<close> particles strokes at most
  \<open>N * connectionMaxPeers\<close> lines, wherever the particles are.
\<close>

theorem drawConnections_edge_bound:
  "length (drawConnections cfg s) \<le> length (particles s) * connectionMaxPeers cfg"
  using connect_all_length [of cfg "particles s" 0] by (simp add: drawConnections_def)

theorem drawConnections_edge_bound_witness:
  "length (drawConnections one_peer row_of_three) = 2 \<and>
   length (particles row_of_three) * connectionMaxPeers one_peer = 3"
  using drawConnections_edge_bound [of one_peer row_of_three]
  by (simp add: row_of_three_lines) (simp add: row_of_three_def one_peer_def config_def)

text \<open>
  C6. The lines of a \<open>drawConnections\<close> run are a function of the sequence of particle
  positions alone: two systems with equal position sequences give the same lines. Every
  line joins the particle at its lower index \<open>i\<close> to the particle at a higher index
  \<open>j > i\<close>; no unordered pair of indices occurs twice; the lines come in ascending order
  of \<open>i\<close> and, for equal \<open>i\<close>, ascending order of \<open>j\<close>; and no particles give no lines.
\<close>

theorem drawConnections_deterministic_ordered:
  "(map (\<lambda>p. (x p, y p)) (particles s) = map (\<lambda>p. (x p, y p)) (particles t) \<longrightarrow>
      drawConnections cfg s = drawConnections cfg t) \<and>
   (\<forall>e \<in> set (drawConnections cfg s).
      from_index e < to_index e \<and> to_index e < length (particles s) \<and>
      moveTo e = (x (particles s ! from_index e), y (particles s ! from_index e)) \<and>
      lineTo e = (x (particles s ! to_index e), y (particles s ! to_index e))) \<and>
   distinct (map (\<lambda>e. {from_index e, to_index e}) (drawConnections cfg s)) \<and>
   sorted_wrt (\<lambda>a b. from_index a < from_index b \<or>
                      (from_index a = from_index b \<and> to_index a < to_index b))
     (drawConnections cfg s) \<and>
   (particles s = [] \<longrightarrow> drawConnections cfg s = [])"
  using drawConnections_positions [of s t cfg] drawConnections_members [of _ cfg s]
    drawConnections_distinct [of cfg s] drawConnections_sorted [of cfg s]
    drawConnections_empty [of s cfg]
  by blast

theorem drawConnections_deterministic_ordered_witness:
  "map (\<lambda>p. (x p, y p)) (particles row_of_three)
     = map (\<lambda>p. (x p, y p)) (particles (row_of_three\<lparr>particles := map (\<lambda>p. p\<lparr>vx := 0, pushY := 7\<rparr>) (particles row_of_three)\<rparr>)) \<and>
   drawConnections one_peer row_of_three
     = drawConnections one_peer (row_of_three\<lparr>particles := map (\<lambda>p. p\<lparr>vx := 0, pushY := 7\<rparr>) (particles row_of_three)\<rparr>) \<and>
   map (\<lambda>e. (from_index e, to_index e)) (drawConnections one_peer row_of_three) = [(0, 1), (1, 2)] \<and>
   drawConnections one_peer (row_of_three\<lparr>particles := []\<rparr>) = []"
proof -
  have same: "map (\<lambda>p. (x p, y p)) (particles row_of_three)
     = map (\<lambda>p. (x p, y p)) (particles (row_of_three\<lparr>particles := map (\<lambda>p. p\<lparr>vx := 0, pushY := 7\<rparr>) (particles row_of_three)\<rparr>))"
    by (simp add: row_of_three_def)
  from drawConnections_deterministic_ordered [of row_of_three
      "row_of_three\<lparr>particles := map (\<lambda>p. p\<lparr>vx := 0, pushY := 7\<rparr>) (particles row_of_three)\<rparr>" one_peer] same
  have equal: "drawConnections one_peer row_of_three
     = drawConnections one_peer (row_of_three\<lparr>particles := map (\<lambda>p. p\<lparr>vx := 0, pushY := 7\<rparr>) (particles row_of_three)\<rparr>)"
    by blast
  from drawConnections_deterministic_ordered [of "row_of_three\<lparr>particles := []\<rparr>"
      "row_of_three\<lparr>particles := []\<rparr>" one_peer]
  have none: "drawConnections one_peer (row_of_three\<lparr>particles := []\<rparr>) = []"
    by simp
  have pairs: "map (\<lambda>e. (from_index e, to_index e)) (drawConnections one_peer row_of_three)
                 = [(0, 1), (1, 2)]"
    by (simp add: row_of_three_lines)
  from same equal pairs none show ?thesis by blast
qed

text \<open>
  C8. With the configuration of the source (\<open>connectionMaxDistance = 100\<close>), three
  particles at \<open>(0, 0)\<close>, \<open>(10, 0)\<close> and \<open>(200, 0)\<close> give exactly one line, from \<open>(0, 0)\<close> to
  \<open>(10, 0)\<close>, and no line starts or ends at the third particle. Only the positions matter:
  the radii (1 in the claim) and the other fields of the particles are not read.
\<close>

theorem drawConnections_end_to_end:
  assumes "map (\<lambda>p. (x p, y p)) (particles s) = [(0, 0), (10, 0), (200, 0)]"
  shows "drawConnections config s =
           [\<lparr>from_index = 0, to_index = 1, globalAlpha = 9 / 20,
             moveTo = (0, 0), lineTo = (10, 0)\<rparr>] \<and>
         filter (\<lambda>e. from_index e = 2 \<or> to_index e = 2) (drawConnections config s) = []"
proof -
  let ?qs = "[\<lparr>x = 0, y = 0, vx = 0, vy = 0, pushX = 0, pushY = 0, radius = 1, friction = 0\<rparr>,
      \<lparr>x = 10, y = 0, vx = 0, vy = 0, pushX = 0, pushY = 0, radius = 1, friction = 0\<rparr>,
      \<lparr>x = 200, y = 0, vx = 0, vy = 0, pushX = 0, pushY = 0, radius = 1, friction = 0\<rparr>]"
  from assms have "map (\<lambda>p. (x p, y p)) (particles s) = map (\<lambda>p. (x p, y p)) ?qs"
    by simp
  then have "connect_all config (particles s) 0 = connect_all config ?qs 0"
    by (rule connect_all_positions)
  then have "drawConnections config s =
           [\<lparr>from_index = 0, to_index = 1, globalAlpha = 9 / 20,
             moveTo = (0, 0), lineTo = (10, 0)\<rparr>]"
    by (simp only: drawConnections_def connect_all_three)
  then show ?thesis by simp
qed

theorem drawConnections_end_to_end_witness:
  "map (\<lambda>p. (x p, y p))
     (particles \<lparr>particles =
        [\<lparr>x = 0, y = 0, vx = 1 / 4, vy = 0, pushX = 0, pushY = 0, radius = 1, friction = 55 / 100\<rparr>,
         \<lparr>x = 10, y = 0, vx = 0, vy = 1 / 4, pushX = 0, pushY = 0, radius = 1, friction = 55 / 100\<rparr>,
         \<lparr>x = 200, y = 0, vx = 0, vy = 0, pushX = 1, pushY = 1, radius = 1, friction = 55 / 100\<rparr>],
        canvasWidth = 800, canvasHeight = 600,
        mouse = \<lparr>mouse_x = None, mouse_y = None, mouse_radius = 200\<rparr>\<rparr>)
     = [(0, 0), (10, 0), (200, 0)] \<and>
   drawConnections config \<lparr>particles =
        [\<lparr>x = 0, y = 0, vx = 1 / 4, vy = 0, pushX = 0, pushY = 0, radius = 1, friction = 55 / 100\<rparr>,
         \<lparr>x = 10, y = 0, vx = 0, vy = 1 / 4, pushX = 0, pushY = 0, radius = 1, friction = 55 / 100\<rparr>,
         \<lparr>x = 200, y = 0, vx = 0, vy = 0, pushX = 1, pushY = 1, radius = 1, friction = 55 / 100\<rparr>],
        canvasWidth = 800, canvasHeight = 600,
        mouse = \<lparr>mouse_x = None, mouse_y = None, mouse_radius = 200\<rparr>\<rparr>
     = [\<lparr>from_index = 0, to_index = 1, globalAlpha = 9 / 20, moveTo = (0, 0), lineTo = (10, 0)\<rparr>]"
  using drawConnections_end_to_end [of "\<lparr>particles =
        [\<lparr>x = 0, y = 0, vx = 1 / 4, vy = 0, pushX = 0, pushY = 0, radius = 1, friction = 55 / 100\<rparr>,
         \<lparr>x = 10, y = 0, vx = 0, vy = 1 / 4, pushX = 0, pushY = 0, radius = 1, friction = 55 / 100\<rparr>,
         \<lparr>x = 200, y = 0, vx = 0, vy = 0, pushX = 1, pushY = 1, radius = 1, friction = 55 / 100\<rparr>],
        canvasWidth = 800, canvasHeight = 600,
        mouse = \<lparr>mouse_x = None, mouse_y = None, mouse_radius = 200\<rparr>\<rparr>"]
  by simp

section \<open>Properties of particle creation\<close>

lemma createParticles_loop_length:
  "length (createParticles_loop cfg w h rnd count i ps) = length ps + (nat \<lceil>count\<rceil> - i)"
proof (induction cfg w h rnd count i ps rule: createParticles_loop.induct)
  case (1 cfg w h rnd count i ps)
  show ?case
  proof (cases "real i < count")
    case True
    then have "i < nat \<lceil>count\<rceil>" by linarith
    with True "1.IH" show ?thesis
      by (simp add: createParticles_loop.simps [of cfg w h rnd count i ps])
  next
    case False
    then have "nat \<lceil>count\<rceil> \<le> i" by linarith
    with False show ?thesis
      by (simp add: createParticles_loop.simps [of cfg w h rnd count i ps])
  qed
qed

lemma createParticles_length:
  "length (particles (createParticles cfg rnd s)) =
     (if canvasWidth s > smallScreenWidthThreshold cfg
      then nat \<lceil>real (particleBaseCount cfg) * particleCountLargeScreenFactor cfg\<rceil>
      else particleBaseCount cfg)"
  by (simp add: createParticles_def Let_def createParticles_loop_length)

text \<open>
  C9. With the configuration of the source, \<open>createParticles\<close> creates
  \<open>\<lfloor>particleBaseCount * particleCountLargeScreenFactor\<rfloor>\<close> particles when the canvas is wider
  than \<open>smallScreenWidthThreshold\<close> and \<open>particleBaseCount\<close> particles otherwise: 450 and 100.
  (The loop runs while its counter is below the product, see \<open>createParticles_length\<close>;
  the product \<open>100 * 4.5\<close> is the integer 450, which is its own floor.)
\<close>

theorem createParticles_count_floor:
  "length (particles (createParticles config rnd s)) =
     (if canvasWidth s > smallScreenWidthThreshold config
      then nat \<lfloor>real (particleBaseCount config) * particleCountLargeScreenFactor config\<rfloor>
      else particleBaseCount config) \<and>
   nat \<lfloor>real (particleBaseCount config) * particleCountLargeScreenFactor config\<rfloor> = 450 \<and>
   particleBaseCount config = 100"
proof -
  have "\<lceil>450 :: real\<rceil> = 450" and "\<lfloor>450 :: real\<rfloor> = 450" by simp_all
  then show ?thesis
    by (simp add: createParticles_length config_def)
qed

theorem createParticles_count_floor_witness:
  "canvasWidth \<lparr>particles = [], canvasWidth = 1024, canvasHeight = 768,
                 mouse = \<lparr>mouse_x = None, mouse_y = None, mouse_radius = 200\<rparr>\<rparr>
     > smallScreenWidthThreshold config \<and>
   length (particles (createParticles config always_zero
      \<lparr>particles = [], canvasWidth = 1024, canvasHeight = 768,
        mouse = \<lparr>mouse_x = None, mouse_y = None, mouse_radius = 200\<rparr>\<rparr>)) = 450 \<and>
   length (particles (createParticles config always_zero
      \<lparr>particles = [], canvasWidth = 480, canvasHeight = 768,
        mouse = \<lparr>mouse_x = None, mouse_y = None, mouse_radius = 200\<rparr>\<rparr>)) = 100"
  using createParticles_count_floor [of always_zero
      "\<lparr>particles = [], canvasWidth = 1024, canvasHeight = 768,
        mouse = \<lparr>mouse_x = None, mouse_y = None, mouse_radius = 200\<rparr>\<rparr>"]
    createParticles_count_floor [of always_zero
      "\<lparr>particles = [], canvasWidth = 480, canvasHeight = 768,
        mouse = \<lparr>mouse_x = None, mouse_y = None, mouse_radius = 200\<rparr>\<rparr>"]
  by (simp add: config_def)

end
